theory Spec2Isabelle
  imports Complex_Main "HOL-Library.AList"
begin

section \<open>Roof Maxx market analytics: data model\<close>

text \<open>
  The analytics module \<^verbatim>\<open>market_analysis.py\<close> works on pandas data frames and on plain
  Python numbers. Python's numbers are modelled as exact reals: the literals of the source
  (\<^verbatim>\<open>0.70\<close>, \<^verbatim>\<open>0.61\<close>, ...) are the decimal fractions they denote, and rounding of
  the binary floating-point format is not modelled. Where pandas divides columns, the
  quotient by zero is not an exception but an infinity or a NaN, so a numeric cell is a
  finite real or one of these three values.
\<close>

datatype error = ZeroDivisionError | UnboundLocalError | TypeError | ValueError

datatype number = Fin real | PosInf | NegInf | NaN

datatype column = TextCol "string list" | NumCol "number list"

text \<open>A data frame is its columns in order; a row (a pandas Series) is its labelled cells.\<close>

type_synonym dataframe = "(string \<times> column) list"

datatype val = Str string | Numv number

type_synonym row = "(string \<times> val) list"

fun col_length :: "column \<Rightarrow> nat" where
  "col_length (TextCol xs) = length xs"
| "col_length (NumCol xs) = length xs"

fun col_cell :: "column \<Rightarrow> nat \<Rightarrow> val" where
  "col_cell (TextCol xs) i = Str (xs ! i)"
| "col_cell (NumCol xs) i = Numv (xs ! i)"

definition nrows :: "dataframe \<Rightarrow> nat" where
  "nrows df = (case df of [] \<Rightarrow> 0 | (c, xs) # _ \<Rightarrow> col_length xs)"

text \<open>
  In a pandas frame every column has the length of the frame, so the number of rows is the
  length of any column, and row \<open>i\<close> holds cell \<open>i\<close> of each column.
\<close>

definition row_at :: "dataframe \<Rightarrow> nat \<Rightarrow> row" where
  "row_at df i = map (\<lambda>(c, xs). (c, col_cell xs i)) df"

definition iterrows :: "dataframe \<Rightarrow> row list" where
  "iterrows df = map (row_at df) [0..<nrows df]"

definition cell :: "dataframe \<Rightarrow> string \<Rightarrow> nat \<Rightarrow> val option" where
  "cell df c i = (case map_of df c of
       None \<Rightarrow> None
     | Some xs \<Rightarrow> if i < col_length xs then Some (col_cell xs i) else None)"

section \<open>Customer lifetime value\<close>

record clv =
  direct_revenue :: real
  referral_value :: real
  total_clv :: real
  timespan_years :: real

definition calculate_customer_lifetime_value :: "real \<Rightarrow> real \<Rightarrow> real \<Rightarrow> clv" where
  "calculate_customer_lifetime_value avg_treatment_cost treatments referral_rate =
     (let direct = avg_treatment_cost * treatments;
          referral = avg_treatment_cost * referral_rate
      in \<lparr> direct_revenue = direct,
           referral_value = referral,
           total_clv = direct + referral,
           timespan_years = treatments * 5 \<rparr>)"

section \<open>Housing age distribution\<close>

text \<open>
  The frame returned by \<^verbatim>\<open>collect_housing_age_data\<close> has four columns of fixed types;
  the last one is computed from the first by \<^verbatim>\<open>isin\<close>.
\<close>

record housing_age_frame =
  age_range :: "string list"
  percentage :: "int list"
  avg_roof_age :: "int list"
  in_treatment_window :: "bool list"

definition age_ranges :: "string list" where
  "age_ranges = [''0-5 years'', ''6-10 years'', ''11-15 years'', ''16-20 years'',
                 ''21-30 years'', ''31-50 years'', ''51+ years'']"

definition isin :: "string list \<Rightarrow> string list \<Rightarrow> bool list" where
  "isin xs values = map (\<lambda>x. x \<in> set values) xs"

definition collect_housing_age_data :: "string \<Rightarrow> housing_age_frame" where
  "collect_housing_age_data region =
     (let (ranges, pct, ages) =
            (if region = ''washington''
             then (age_ranges, [8, 12, 15, 18, 25, 18, 4], [3, 8, 13, 18, 25, 20, 25])
             else (age_ranges, [7, 11, 14, 17, 27, 19, 5], [3, 8, 13, 18, 26, 22, 27]))
      in \<lparr> age_range = ranges,
           percentage = pct,
           avg_roof_age = ages,
           in_treatment_window = isin ranges [''6-10 years'', ''11-15 years''] \<rparr>)"

section \<open>Executive dashboard\<close>

text \<open>
  The dashboard script reads three sidebar controls and then draws its tabs. The first
  tab opens with four \<^verbatim>\<open>st.metric\<close> calls.
\<close>

record sidebar =
  territory :: string
  date_range :: "int \<times> int"
  monthly_marketing :: int

record st_metric =
  label :: string
  metric_value :: string
  delta :: string

definition tab1_metrics :: "sidebar \<Rightarrow> st_metric list" where
  "tab1_metrics controls =
     [\<lparr> label = ''Monthly Leads'', metric_value = ''187'', delta = ''+23 vs last month'' \<rparr>,
      \<lparr> label = ''Conversion Rate'', metric_value = ''28.5%'', delta = ''+3.2%'' \<rparr>,
      \<lparr> label = ''Revenue (MTD)'', metric_value = ''$241,500'', delta = ''+$45,300'' \<rparr>,
      \<lparr> label = ''Pipeline Value'', metric_value = ''$1.2M'', delta = ''+18%'' \<rparr>]"

section \<open>Demographic data\<close>

text \<open>
  \<^verbatim>\<open>collect_demographic_data\<close> builds a frame from literal columns and appends three
  derived columns, each a product of columns and constants. Its \<^verbatim>\<open>if\<close>/\<^verbatim>\<open>elif\<close> has
  no \<^verbatim>\<open>else\<close>: for any other region the final \<^verbatim>\<open>return df\<close> reads a local variable
  that was never assigned, which Python reports as \<^verbatim>\<open>UnboundLocalError\<close>.
\<close>

definition num_col :: "real list \<Rightarrow> column" where
  "num_col xs = NumCol (map Fin xs)"

definition series_mul :: "real list \<Rightarrow> real list \<Rightarrow> real list" where
  "series_mul xs ys = map2 (*) xs ys"

definition series_scale :: "real list \<Rightarrow> real \<Rightarrow> real list" where
  "series_scale xs k = map (\<lambda>x. x * k) xs"

definition collect_demographic_data :: "string \<Rightarrow> error + dataframe" where
  "collect_demographic_data region =
     (if region = ''washington'' then
        (let homeownership_rate = [0.61, 0.65, 0.68, 0.62, 0.66, 0.64, 0.66, 0.58, 0.63, 0.68];
             housing_units = [953923, 363418, 327152, 218234, 199876,
                              123456, 112345, 95432, 98765, 87654];
             df = [(''county'', TextCol [''King'', ''Pierce'', ''Snohomish'', ''Spokane'', ''Clark'',
                                         ''Thurston'', ''Kitsap'', ''Yakima'', ''Whatcom'', ''Benton'']),
                   (''population'', num_col [2269675, 921130, 827957, 522798, 503311,
                                             291681, 271473, 256728, 229247, 206873]),
                   (''median_income'', num_col [106326, 78936, 95184, 62371, 82614,
                                                79683, 81934, 61709, 72977, 84867]),
                   (''median_home_value'', num_col [686400, 451200, 589700, 298100, 445900,
                                                    398600, 459800, 264100, 475300, 338700]),
                   (''homeownership_rate'', num_col homeownership_rate),
                   (''housing_units'', num_col housing_units)];
             est_asphalt_roofs = series_scale (series_mul housing_units homeownership_rate) 0.70;
             est_qualified_roofs = series_scale est_asphalt_roofs 0.90;
             market_potential_annual = series_scale est_qualified_roofs 0.07
         in Inr (df @ [(''est_asphalt_roofs'', num_col est_asphalt_roofs),
                       (''est_qualified_roofs'', num_col est_qualified_roofs),
                       (''market_potential_annual'', num_col market_potential_annual)]))
      else if region = ''canada'' then
        (let homeownership_rate = [0.69, 0.68, 0.72, 0.61, 0.70, 0.71];
             housing_units = [5929000, 2100000, 1760000, 3700000, 580000, 485000];
             df = [(''province'', TextCol [''Ontario'', ''British Columbia'', ''Alberta'', ''Quebec'',
                                           ''Manitoba'', ''Saskatchewan'']),
                   (''population'', num_col [14826276, 5214805, 4543111, 8604495,
                                             1383765, 1194803]),
                   (''median_income_cad'', num_col [87353, 82851, 97940, 79105, 77750, 80679]),
                   (''median_home_value_cad'', num_col [769800, 876600, 476300, 453200,
                                                        347800, 312500]),
                   (''homeownership_rate'', num_col homeownership_rate),
                   (''housing_units'', num_col housing_units)];
             est_asphalt_roofs = series_scale (series_mul housing_units homeownership_rate) 0.72;
             est_qualified_roofs = series_scale est_asphalt_roofs 0.85;
             market_potential_annual = series_scale est_qualified_roofs 0.065
         in Inr (df @ [(''est_asphalt_roofs'', num_col est_asphalt_roofs),
                       (''est_qualified_roofs'', num_col est_qualified_roofs),
                       (''market_potential_annual'', num_col market_potential_annual)]))
      else Inl UnboundLocalError)"

definition demographic_cell :: "string \<Rightarrow> string \<Rightarrow> nat \<Rightarrow> error + val option" where
  "demographic_cell region c i =
     (case collect_demographic_data region of Inl e \<Rightarrow> Inl e | Inr df \<Rightarrow> Inr (cell df c i))"

section \<open>Feature preparation\<close>

text \<open>
  Division of two numeric columns is elementwise and follows IEEE 754 (signed zeros
  apart): a finite quotient where the divisor is not zero, an infinity or NaN otherwise,
  never an exception. Dividing a text column raises \<^verbatim>\<open>TypeError\<close>.
\<close>

fun fdiv :: "number \<Rightarrow> number \<Rightarrow> number" where
  "fdiv NaN y = NaN"
| "fdiv x NaN = NaN"
| "fdiv (Fin a) (Fin b) =
     (if b \<noteq> 0 then Fin (a / b) else if 0 < a then PosInf else if a < 0 then NegInf else NaN)"
| "fdiv (Fin a) PosInf = Fin 0"
| "fdiv (Fin a) NegInf = Fin 0"
| "fdiv PosInf (Fin b) = (if 0 \<le> b then PosInf else NegInf)"
| "fdiv NegInf (Fin b) = (if 0 \<le> b then NegInf else PosInf)"
| "fdiv PosInf y = NaN"
| "fdiv NegInf y = NaN"

fun col_div :: "column \<Rightarrow> column \<Rightarrow> error + column" where
  "col_div (NumCol xs) (NumCol ys) = Inr (NumCol (map2 fdiv xs ys))"
| "col_div xs ys = Inl TypeError"

definition columns :: "dataframe \<Rightarrow> string set" where
  "columns df = set (map fst df)"

definition prepare_features :: "dataframe \<Rightarrow> error + dataframe" where
  "prepare_features df =
     (let features = df in
      case (case (map_of features ''median_income'', map_of features ''median_home_value'') of
              (Some income, Some home_value) \<Rightarrow>
                (case col_div income home_value of
                   Inl e \<Rightarrow> Inl e
                 | Inr ratio \<Rightarrow> Inr (AList.update ''income_home_ratio'' ratio features))
            | _ \<Rightarrow> Inr features) of
        Inl e \<Rightarrow> Inl e
      | Inr features \<Rightarrow>
          (case (map_of features ''population'', map_of features ''housing_units'') of
             (Some population, Some housing_units) \<Rightarrow>
               (case col_div population housing_units of
                  Inl e \<Rightarrow> Inl e
                | Inr density \<Rightarrow> Inr (AList.update ''population_density'' density features))
           | _ \<Rightarrow> Inr features))"

section \<open>Lead generation forecast\<close>

text \<open>Python's \<^verbatim>\<open>/\<close> on numbers raises \<^verbatim>\<open>ZeroDivisionError\<close> when the divisor is zero.\<close>

definition py_div :: "real \<Rightarrow> real \<Rightarrow> error + real" where
  "py_div a b = (if b = 0 then Inl ZeroDivisionError else Inr (a / b))"

record lead_breakdown =
  total_leads :: real
  hot_leads :: real
  warm_leads :: real
  cold_leads :: real

record conversion_table =
  hot_conversion :: real
  warm_conversion :: real
  cold_conversion :: real

record lead_forecast =
  leads :: lead_breakdown
  conversion_rates :: conversion_table
  projected_monthly_sales :: real
  projected_monthly_revenue :: real
  cost_per_lead :: real
  cost_per_acquisition :: real
  roi :: real

definition monthly_leads :: "real \<Rightarrow> real \<Rightarrow> real \<Rightarrow> real \<Rightarrow> real" where
  "monthly_leads digital_spend seo_score content_pieces review_count =
     (let base_leads_per_1k_spend = 15;
          seo_multiplier = 1 + (seo_score / 100) * 2;
          content_multiplier = 1 + (content_pieces / 50) * 1.5;
          review_multiplier = 1 + (review_count / 100) * 0.5
      in digital_spend / 1000 * base_leads_per_1k_spend *
         seo_multiplier * content_multiplier * review_multiplier)"

definition projected_sales :: "real \<Rightarrow> real \<Rightarrow> real \<Rightarrow> real \<Rightarrow> real" where
  "projected_sales digital_spend seo_score content_pieces review_count =
     (let ml = monthly_leads digital_spend seo_score content_pieces review_count
      in (ml * 0.25) * 0.60 + (ml * 0.45) * 0.25 + (ml * 0.30) * 0.05)"

definition forecast_lead_generation ::
    "dataframe \<Rightarrow> real \<Rightarrow> real \<Rightarrow> real \<Rightarrow> real \<Rightarrow> error + lead_forecast" where
  "forecast_lead_generation base_data digital_spend seo_score content_pieces review_count =
     (let ml = monthly_leads digital_spend seo_score content_pieces review_count;
          lead_breakdown = \<lparr> total_leads = ml, hot_leads = ml * 0.25,
                             warm_leads = ml * 0.45, cold_leads = ml * 0.30 \<rparr>;
          rates = \<lparr> hot_conversion = 0.60, warm_conversion = 0.25, cold_conversion = 0.05 \<rparr>;
          sales = hot_leads lead_breakdown * hot_conversion rates +
                  warm_leads lead_breakdown * warm_conversion rates +
                  cold_leads lead_breakdown * cold_conversion rates
      in case py_div digital_spend ml of
           Inl e \<Rightarrow> Inl e
         | Inr cpl \<Rightarrow>
            (case py_div digital_spend sales of
               Inl e \<Rightarrow> Inl e
             | Inr cpa \<Rightarrow>
                (case py_div (sales * 4500 - digital_spend) digital_spend of
                   Inl e \<Rightarrow> Inl e
                 | Inr r \<Rightarrow>
                     Inr \<lparr> leads = lead_breakdown,
                           conversion_rates = rates,
                           projected_monthly_sales = sales,
                           projected_monthly_revenue = sales * 4500,
                           cost_per_lead = cpl,
                           cost_per_acquisition = cpa,
                           roi = r \<rparr>)))"

section \<open>Seasonal demand\<close>



section \<open>Market heat map\<close>

text \<open>
  The map is a folium object that collects the circle markers added to it. A popup is
  kept as the name and the four numbers it displays, not as rendered markup. Formatting a
  string with the numeric format \<^verbatim>\<open>,.0f\<close> raises \<^verbatim>\<open>ValueError\<close>.
\<close>

definition wa_coordinates :: "(string \<times> real \<times> real) list" where
  "wa_coordinates =
     [(''King'', (47.5480, -121.9836)),
      (''Pierce'', (47.0676, -122.1295)),
      (''Snohomish'', (48.0420, -121.7170)),
      (''Spokane'', (47.6588, -117.4260)),
      (''Clark'', (45.7466, -122.5194)),
      (''Thurston'', (46.9965, -122.8890)),
      (''Kitsap'', (47.6477, -122.6413)),
      (''Yakima'', (46.5890, -120.5435)),
      (''Whatcom'', (48.8426, -122.1361)),
      (''Benton'', (46.2632, -119.5419))]"

record popup =
  popup_name :: string
  popup_metric :: number
  popup_population :: number
  popup_median_income :: number
  popup_qualified_roofs :: number

record circle_marker =
  location :: "real \<times> real"
  radius :: number
  marker_popup :: popup

record folium_map =
  map_location :: "real \<times> real"
  zoom_start :: nat
  tiles :: string
  children :: "circle_marker list"

record geospatial_analyzer =
  analyzer_maps :: "(string \<times> folium_map) list"

definition row_get :: "row \<Rightarrow> string \<Rightarrow> val" where
  "row_get r k = (case map_of r k of None \<Rightarrow> Numv (Fin 0) | Some v \<Rightarrow> v)"

fun format_f :: "val \<Rightarrow> error + number" where
  "format_f (Str s) = Inl ValueError"
| "format_f (Numv n) = Inr n"

text \<open>The name of a row: its county, else its province, else none (the row is passed over).\<close>

definition location_name :: "row \<Rightarrow> val option" where
  "location_name r =
     (if map_of r ''county'' \<noteq> None then map_of r ''county''
      else if map_of r ''province'' \<noteq> None then map_of r ''province''
      else None)"

definition row_marker :: "string \<Rightarrow> row \<Rightarrow> error + circle_marker option" where
  "row_marker metric r =
     (case location_name r of
        None \<Rightarrow> Inr None
      | Some (Numv n) \<Rightarrow> Inr None
      | Some (Str name) \<Rightarrow>
         (case map_of wa_coordinates name of
            None \<Rightarrow> Inr None
          | Some coords \<Rightarrow>
             (case format_f (row_get r metric) of
                Inl e \<Rightarrow> Inl e
              | Inr potential \<Rightarrow>
             (case format_f (row_get r ''population'') of
                Inl e \<Rightarrow> Inl e
              | Inr pop \<Rightarrow>
             (case format_f (row_get r ''median_income'') of
                Inl e \<Rightarrow> Inl e
              | Inr income \<Rightarrow>
             (case format_f (row_get r ''est_qualified_roofs'') of
                Inl e \<Rightarrow> Inl e
              | Inr roofs \<Rightarrow>
                 Inr (Some \<lparr> location = coords,
                             radius = fdiv potential (Fin 100),
                             marker_popup =
                               \<lparr> popup_name = name, popup_metric = potential,
                                 popup_population = pop, popup_median_income = income,
                                 popup_qualified_roofs = roofs \<rparr> \<rparr>)))))))"

fun add_markers :: "string \<Rightarrow> row list \<Rightarrow> circle_marker list \<Rightarrow> error + circle_marker list" where
  "add_markers metric [] ms = Inr ms"
| "add_markers metric (r # rs) ms =
     (case row_marker metric r of
        Inl e \<Rightarrow> Inl e
      | Inr None \<Rightarrow> add_markers metric rs ms
      | Inr (Some k) \<Rightarrow> add_markers metric rs (ms @ [k]))"

definition create_market_heatmap ::
    "geospatial_analyzer \<Rightarrow> dataframe \<Rightarrow> string \<Rightarrow> error + folium_map \<times> geospatial_analyzer" where
  "create_market_heatmap self demographic_data metric =
     (case add_markers metric (iterrows demographic_data) [] of
        Inl e \<Rightarrow> Inl e
      | Inr ms \<Rightarrow>
          (let m = \<lparr> map_location = (47.5, -120.5), zoom_start = 7,
                     tiles = ''OpenStreetMap'', children = ms \<rparr>
           in Inr (m, self\<lparr> analyzer_maps :=
                              AList.update ''opportunity_heatmap'' m (analyzer_maps self) \<rparr>)))"

text \<open>
  The words of the specification: the ten Washington county names, and the rows whose
  county (or, without a county field, province) is one of them.
\<close>

definition wa_county_names :: "string list" where
  "wa_county_names = [''King'', ''Pierce'', ''Snohomish'', ''Spokane'', ''Clark'',
                      ''Thurston'', ''Kitsap'', ''Yakima'', ''Whatcom'', ''Benton'']"

definition names_in_table :: "row \<Rightarrow> string list" where
  "names_in_table r =
     (case location_name r of
        Some (Str name) \<Rightarrow> if name \<in> set wa_county_names then [name] else []
      | _ \<Rightarrow> [])"

definition numeric_fields :: "string \<Rightarrow> row \<Rightarrow> bool" where
  "numeric_fields metric r =
     list_all (\<lambda>k. case map_of r k of Some (Str s) \<Rightarrow> False | _ \<Rightarrow> True)
       [metric, ''population'', ''median_income'', ''est_qualified_roofs'']"

section \<open>Auxiliary notions for the statements\<close>

text \<open>
  A column is numeric when it is absent or holds numbers; the four source columns of
  the derived features are numeric in every region table of the data model.
\<close>

definition numeric_column :: "dataframe \<Rightarrow> string \<Rightarrow> bool" where
  "numeric_column df c = (case map_of df c of Some (TextCol xs) \<Rightarrow> False | _ \<Rightarrow> True)"

definition numeric_sources :: "dataframe \<Rightarrow> bool" where
  "numeric_sources df =
     list_all (numeric_column df)
       [''median_income'', ''median_home_value'', ''population'', ''housing_units'']"

text \<open>One guarded assignment of \<^verbatim>\<open>prepare_features\<close>, used to reason about its two steps.\<close>

definition add_quotient :: "string \<Rightarrow> string \<Rightarrow> string \<Rightarrow> dataframe \<Rightarrow> error + dataframe" where
  "add_quotient target a b features =
     (case (map_of features a, map_of features b) of
        (Some x, Some y) \<Rightarrow>
          (case col_div x y of
             Inl e \<Rightarrow> Inl e
           | Inr q \<Rightarrow> Inr (AList.update target q features))
      | _ \<Rightarrow> Inr features)"

section \<open>Properties\<close>

text \<open>
  C2. For every average treatment cost, number of treatments and referral rate, the
  lifetime-value breakdown has direct revenue cost * treatments, referral value
  cost * rate, total their sum and a timespan of five years per treatment; at the
  defaults 4500, 3 and 0.3 these are 13500, 1350, 14850 and 15.
\<close>

theorem clv_breakdown:
  "direct_revenue (calculate_customer_lifetime_value c n r) = c * n
   \<and> referral_value (calculate_customer_lifetime_value c n r) = c * r
   \<and> total_clv (calculate_customer_lifetime_value c n r) = c * n + c * r
   \<and> timespan_years (calculate_customer_lifetime_value c n r) = n * 5
   \<and> calculate_customer_lifetime_value 4500 3 0.3 =
       \<lparr> direct_revenue = 13500, referral_value = 1350, total_clv = 14850,
         timespan_years = 15 \<rparr>"
  by (simp add: calculate_customer_lifetime_value_def Let_def)

text \<open>
  C10. For every region other than the exact string \<open>washington\<close>, the housing-age
  table is the Canada table (percentages 7, 11, 14, 17, 27, 19, 5 and average roof ages
  3, 8, 13, 18, 26, 22, 27); the function has no failing path. In every returned table
  the treatment-window flag is true exactly for the brackets of 6-10 and 11-15 years.
\<close>

theorem housing_age_other_region:
  "region \<noteq> ''washington'' \<Longrightarrow>
     collect_housing_age_data region =
       \<lparr> age_range = [''0-5 years'', ''6-10 years'', ''11-15 years'', ''16-20 years'',
                       ''21-30 years'', ''31-50 years'', ''51+ years''],
         percentage = [7, 11, 14, 17, 27, 19, 5],
         avg_roof_age = [3, 8, 13, 18, 26, 22, 27],
         in_treatment_window = [False, True, True, False, False, False, False] \<rparr>
     \<and> (\<forall>reg. in_treatment_window (collect_housing_age_data reg) =
            map (\<lambda>a. a = ''6-10 years'' \<or> a = ''11-15 years'')
                (age_range (collect_housing_age_data reg)))"
  by (simp add: collect_housing_age_data_def age_ranges_def isin_def)

text \<open>C10 at the unrecognised region \<open>france\<close>, and the flags of the Washington table.\<close>

theorem housing_age_other_region_witness:
  "''france'' \<noteq> ''washington'' \<and>
   percentage (collect_housing_age_data ''france'') = [7, 11, 14, 17, 27, 19, 5] \<and>
   avg_roof_age (collect_housing_age_data ''france'') = [3, 8, 13, 18, 26, 22, 27] \<and>
   in_treatment_window (collect_housing_age_data ''washington'') =
     [False, True, True, False, False, False, False]"
  using housing_age_other_region [of "''france''"] 
  by (simp add: collect_housing_age_data_def age_ranges_def isin_def)

text \<open>
  C9. The four metrics at the head of the Executive Dashboard tab are the same for any
  two settings of the sidebar controls (territory, date range, marketing budget): 187
  monthly leads, a conversion rate of 28.5%, revenue of $241,500 and a pipeline of $1.2M.
\<close>

theorem executive_metrics_static:
  "tab1_metrics s1 = tab1_metrics s2 \<and>
   map (\<lambda>m. (label m, metric_value m)) (tab1_metrics s1) =
     [(''Monthly Leads'', ''187''), (''Conversion Rate'', ''28.5%''),
      (''Revenue (MTD)'', ''$241,500''), (''Pipeline Value'', ''$1.2M'')]"
  by (simp add: tab1_metrics_def)



text \<open>
  C3. The claim asks for an explicit invalid-input error on an unrecognised region. At
  the region \<open>france\<close> the function instead stops on its unassigned local variable.
\<close>

theorem unknown_region_unbound:
  "collect_demographic_data ''france'' = Inl UnboundLocalError"
  by (simp add: collect_demographic_data_def)

subsection \<open>Lead forecast\<close>

lemma monthly_leads_zero_spend: "monthly_leads 0 s c r = 0"
  by (simp add: monthly_leads_def)

text \<open>
  C4. The lead forecast fails with the division-by-zero error exactly when the digital
  spend, the monthly lead count or the projected sales count is zero. When all three are
  nonzero it returns, with cost per lead spend / leads, cost per acquisition
  spend / sales, and return on investment (sales * 4500 - spend) / spend.
\<close>

theorem forecast_zero_division:
  "(forecast_lead_generation b d s c r = Inl ZeroDivisionError \<longleftrightarrow>
      d = 0 \<or> monthly_leads d s c r = 0 \<or> projected_sales d s c r = 0)
   \<and> (d \<noteq> 0 \<and> monthly_leads d s c r \<noteq> 0 \<and> projected_sales d s c r \<noteq> 0 \<longrightarrow>
        (\<exists>res. forecast_lead_generation b d s c r = Inr res
           \<and> total_leads (leads res) = monthly_leads d s c r
           \<and> projected_monthly_sales res = projected_sales d s c r
           \<and> cost_per_lead res = d / monthly_leads d s c r
           \<and> cost_per_acquisition res = d / projected_sales d s c r
           \<and> roi res = (projected_sales d s c r * 4500 - d) / d))"
  by (auto simp: forecast_lead_generation_def py_div_def Let_def projected_sales_def
        monthly_leads_zero_spend split: sum.splits)

text \<open>C4 at a zero spend, where the call fails, and at a spend of 1000, where it returns.\<close>

theorem forecast_zero_division_witness:
  "forecast_lead_generation [] 0 50 10 20 = Inl ZeroDivisionError
   \<and> (\<exists>res. forecast_lead_generation [] 1000 50 10 20 = Inr res
         \<and> cost_per_lead res = 1000 / 42.9
         \<and> cost_per_acquisition res = 1000 / (42.9 * 0.2775)
         \<and> roi res = (42.9 * 0.2775 * 4500 - 1000) / 1000)"
  using forecast_zero_division [of "[]" 0 50 10 20]
    forecast_zero_division [of "[]" 1000 50 10 20]
  by (auto simp: monthly_leads_def projected_sales_def)

lemma prod4_mono:
  fixes a b c e :: real
  assumes "0 \<le> a" "a \<le> a'" "0 \<le> b" "b \<le> b'" "0 \<le> c" "c \<le> c'" "0 \<le> e" "e \<le> e'"
  shows "a * b * c * e \<le> a' * b' * c' * e'"
proof -
  have ab: "a * b \<le> a' * b'" and pab: "0 \<le> a * b"
    using assms by (auto intro: mult_mono)
  have abc: "a * b * c \<le> a' * b' * c'" and pabc: "0 \<le> a * b * c"
    using ab pab assms by (auto intro: mult_mono)
  show ?thesis
    using abc pabc assms by (auto intro: mult_mono)
qed

lemma monthly_leads_mono:
  assumes "0 \<le> d" "0 \<le> s" "0 \<le> c" "0 \<le> r" "d \<le> d'" "s \<le> s'" "c \<le> c'" "r \<le> r'"
  shows "monthly_leads d s c r \<le> monthly_leads d' s' c' r'"
  unfolding monthly_leads_def Let_def
proof (rule prod4_mono)
  show "0 \<le> d / 1000 * 15" "d / 1000 * 15 \<le> d' / 1000 * 15"
    using assms by simp_all
  show "0 \<le> 1 + s / 100 * 2" "1 + s / 100 * 2 \<le> 1 + s' / 100 * 2"
    using assms by simp_all
  show "0 \<le> 1 + c / 50 * 1.5" "1 + c / 50 * 1.5 \<le> 1 + c' / 50 * 1.5"
    using assms by simp_all
  show "0 \<le> 1 + r / 100 * 0.5" "1 + r / 100 * 0.5 \<le> 1 + r' / 100 * 0.5"
    using assms by simp_all
qed

lemma monthly_leads_pos:
  assumes "0 < d" "0 \<le> s" "0 \<le> c" "0 \<le> r"
  shows "0 < monthly_leads d s c r"
  using assms by (simp add: monthly_leads_def Let_def zero_less_mult_iff add_pos_nonneg)

lemma forecast_returns:
  assumes "monthly_leads d s c r \<noteq> 0"
  shows "\<exists>res. forecast_lead_generation b d s c r = Inr res
           \<and> total_leads (leads res) = monthly_leads d s c r"
proof -
  have "d \<noteq> 0" using assms by (auto simp: monthly_leads_def)
  then show ?thesis using assms
    by (simp add: forecast_lead_generation_def py_div_def Let_def)
qed

lemma forecast_total_leads:
  "forecast_lead_generation b d s c r = Inr res \<Longrightarrow>
     total_leads (leads res) = monthly_leads d s c r"
  by (auto simp: forecast_lead_generation_def py_div_def Let_def split: if_splits)

text \<open>
  C5. On non-negative inputs the monthly lead count does not decrease when digital spend,
  SEO score, content pieces or review count increase (one of them, the others fixed, or
  several at once): the lead formula is monotone, the counts of any two calls that
  return are ordered accordingly, and both calls return when the smaller spend is positive.
\<close>

theorem lead_forecast_monotone:
  assumes "0 \<le> d" "0 \<le> s" "0 \<le> c" "0 \<le> r" "d \<le> d'" "s \<le> s'" "c \<le> c'" "r \<le> r'"
  shows "monthly_leads d s c r \<le> monthly_leads d' s' c' r'
     \<and> (\<forall>x y. forecast_lead_generation b d s c r = Inr x \<longrightarrow>
              forecast_lead_generation b' d' s' c' r' = Inr y \<longrightarrow>
              total_leads (leads x) \<le> total_leads (leads y))
     \<and> (0 < d \<longrightarrow> (\<exists>x y. forecast_lead_generation b d s c r = Inr x \<and>
              forecast_lead_generation b' d' s' c' r' = Inr y))"
proof (intro conjI allI impI)
  show le: "monthly_leads d s c r \<le> monthly_leads d' s' c' r'"
    using assms by (rule monthly_leads_mono)
  show "total_leads (leads x) \<le> total_leads (leads y)"
    if "forecast_lead_generation b d s c r = Inr x"
      and "forecast_lead_generation b' d' s' c' r' = Inr y" for x y
    using that le by (simp add: forecast_total_leads)
  show "\<exists>x y. forecast_lead_generation b d s c r = Inr x \<and>
              forecast_lead_generation b' d' s' c' r' = Inr y" if "0 < d"
  proof -
    have "0 < monthly_leads d s c r"
      using that assms by (simp add: monthly_leads_pos)
    moreover have "0 < monthly_leads d' s' c' r'"
      using that assms by (intro monthly_leads_pos) simp_all
    ultimately show ?thesis
      using forecast_returns [of d s c r b] forecast_returns [of d' s' c' r' b'] by auto
  qed
qed

text \<open>C5 at spend 1000 against spend 2000, the other inputs fixed at 50, 10 and 20.\<close>

theorem lead_forecast_monotone_witness:
  "(0::real) \<le> 1000 \<and> (0::real) \<le> 50 \<and> (0::real) \<le> 10 \<and> (0::real) \<le> 20
   \<and> (1000::real) \<le> 2000
   \<and> monthly_leads 1000 50 10 20 \<le> monthly_leads 2000 50 10 20
   \<and> monthly_leads 1000 50 10 20 = 42.9
   \<and> (\<exists>x y. forecast_lead_generation [] 1000 50 10 20 = Inr x \<and>
            forecast_lead_generation [] 2000 50 10 20 = Inr y \<and>
            total_leads (leads x) \<le> total_leads (leads y))"
  using lead_forecast_monotone [of 1000 50 10 20 2000 50 10 20 "[]" "[]"]
  by (auto simp: monthly_leads_def)

subsection \<open>Demographic data\<close>

lemma col_length_num_col: "col_length (num_col xs) = length xs"
  by (simp add: num_col_def)

lemma cell_num_col:
  "map_of df c = Some (num_col xs) \<Longrightarrow> i < length xs \<Longrightarrow>
     cell df c i = Some (Numv (Fin (xs ! i)))"
  by (simp add: cell_def num_col_def)

lemma length_series_mul: "length (series_mul xs ys) = min (length xs) (length ys)"
  by (simp add: series_mul_def)

lemma length_series_scale: "length (series_scale xs k) = length xs"
  by (simp add: series_scale_def)

lemma nth_series_mul:
  "i < length xs \<Longrightarrow> i < length ys \<Longrightarrow> series_mul xs ys ! i = xs ! i * ys ! i"
  by (simp add: series_mul_def)

lemma nth_series_scale: "i < length xs \<Longrightarrow> series_scale xs k ! i = xs ! i * k"
  by (simp add: series_scale_def)

lemma derived_cells:
  assumes hu: "map_of df ''housing_units'' = Some (num_col hu)"
    and hr: "map_of df ''homeownership_rate'' = Some (num_col hr)"
    and ea: "map_of df ''est_asphalt_roofs'' =
              Some (num_col (series_scale (series_mul hu hr) k1))"
    and eq: "map_of df ''est_qualified_roofs'' =
              Some (num_col (series_scale (series_scale (series_mul hu hr) k1) k2))"
    and mp: "map_of df ''market_potential_annual'' =
              Some (num_col (series_scale (series_scale (series_scale (series_mul hu hr) k1) k2) k3))"
    and len: "i < length hu" "i < length hr"
  shows "\<exists>h r a q p.
           cell df ''housing_units'' i = Some (Numv (Fin h))
         \<and> cell df ''homeownership_rate'' i = Some (Numv (Fin r))
         \<and> cell df ''est_asphalt_roofs'' i = Some (Numv (Fin a))
         \<and> cell df ''est_qualified_roofs'' i = Some (Numv (Fin q))
         \<and> cell df ''market_potential_annual'' i = Some (Numv (Fin p))
         \<and> a = h * r * k1 \<and> q = a * k2 \<and> p = q * k3"
proof -
  have "cell df ''housing_units'' i = Some (Numv (Fin (hu ! i)))"
    using hu len(1) by (rule cell_num_col)
  moreover have "cell df ''homeownership_rate'' i = Some (Numv (Fin (hr ! i)))"
    using hr len(2) by (rule cell_num_col)
  moreover have "cell df ''est_asphalt_roofs'' i = Some (Numv (Fin (hu ! i * hr ! i * k1)))"
    using cell_num_col [OF ea, of i] len
    by (simp add: length_series_mul length_series_scale nth_series_mul nth_series_scale)
  moreover have "cell df ''est_qualified_roofs'' i =
      Some (Numv (Fin (hu ! i * hr ! i * k1 * k2)))"
    using cell_num_col [OF eq, of i] len
    by (simp add: length_series_mul length_series_scale nth_series_mul nth_series_scale)
  moreover have "cell df ''market_potential_annual'' i =
      Some (Numv (Fin (hu ! i * hr ! i * k1 * k2 * k3)))"
    using cell_num_col [OF mp, of i] len
    by (simp add: length_series_mul length_series_scale nth_series_mul nth_series_scale)
  ultimately show ?thesis by simp
qed

lemma demographic_rows:
  assumes "collect_demographic_data region = Inr df" "i < nrows df"
  shows "\<exists>h r a q p.
           cell df ''housing_units'' i = Some (Numv (Fin h))
         \<and> cell df ''homeownership_rate'' i = Some (Numv (Fin r))
         \<and> cell df ''est_asphalt_roofs'' i = Some (Numv (Fin a))
         \<and> cell df ''est_qualified_roofs'' i = Some (Numv (Fin q))
         \<and> cell df ''market_potential_annual'' i = Some (Numv (Fin p))
         \<and> (region = ''washington'' \<longrightarrow> a = h * r * 0.70 \<and> q = a * 0.90 \<and> p = q * 0.07)
         \<and> (region = ''canada'' \<longrightarrow> a = h * r * 0.72 \<and> q = a * 0.85 \<and> p = q * 0.065)"
proof -
  consider "region = ''washington''" | "region = ''canada''"
    using assms(1) by (auto simp: collect_demographic_data_def split: if_splits)
  then show ?thesis
  proof cases
    case 1
    define hu :: "real list" where
      "hu = [953923, 363418, 327152, 218234, 199876, 123456, 112345, 95432, 98765, 87654]"
    define hr :: "real list" where
      "hr = [0.61, 0.65, 0.68, 0.62, 0.66, 0.64, 0.66, 0.58, 0.63, 0.68]"
    have "nrows df = 10"
      using assms(1) 1
      by (auto simp: collect_demographic_data_def Let_def nrows_def col_length_num_col)
    then have len: "i < length hu" "i < length hr"
      using assms(2) by (simp_all add: hu_def hr_def)
    have "\<exists>h r a q p.
           cell df ''housing_units'' i = Some (Numv (Fin h))
         \<and> cell df ''homeownership_rate'' i = Some (Numv (Fin r))
         \<and> cell df ''est_asphalt_roofs'' i = Some (Numv (Fin a))
         \<and> cell df ''est_qualified_roofs'' i = Some (Numv (Fin q))
         \<and> cell df ''market_potential_annual'' i = Some (Numv (Fin p))
         \<and> a = h * r * 0.70 \<and> q = a * 0.90 \<and> p = q * 0.07"
      using assms(1) 1 len(1) len(2)
      by (intro derived_cells [of df hu hr])
         (auto simp: collect_demographic_data_def Let_def hu_def hr_def)
    then show ?thesis using 1 by auto
  next
    case 2
    define hu :: "real list" where
      "hu = [5929000, 2100000, 1760000, 3700000, 580000, 485000]"
    define hr :: "real list" where
      "hr = [0.69, 0.68, 0.72, 0.61, 0.70, 0.71]"
    have "nrows df = 6"
      using assms(1) 2
      by (auto simp: collect_demographic_data_def Let_def nrows_def col_length_num_col)
    then have len: "i < length hu" "i < length hr"
      using assms(2) by (simp_all add: hu_def hr_def)
    have "\<exists>h r a q p.
           cell df ''housing_units'' i = Some (Numv (Fin h))
         \<and> cell df ''homeownership_rate'' i = Some (Numv (Fin r))
         \<and> cell df ''est_asphalt_roofs'' i = Some (Numv (Fin a))
         \<and> cell df ''est_qualified_roofs'' i = Some (Numv (Fin q))
         \<and> cell df ''market_potential_annual'' i = Some (Numv (Fin p))
         \<and> a = h * r * 0.72 \<and> q = a * 0.85 \<and> p = q * 0.065"
      using assms(1) 2 len(1) len(2)
      by (intro derived_cells [of df hu hr])
         (auto simp: collect_demographic_data_def Let_def hu_def hr_def)
    then show ?thesis using 2 by auto
  qed
qed

text \<open>
  C1, as stated, fails in its example: for King County (953923 housing units, a
  homeownership rate of 0.61) the estimated asphalt roof count is 407325.121, which is
  more than 199 away from the 407125.7 of the claim.
\<close>

theorem king_county_counterexample:
  "demographic_cell ''washington'' ''est_asphalt_roofs'' 0 = Inr (Some (Numv (Fin 407325.121)))
   \<and> \<not> \<bar>407325.121 - 407125.7\<bar> \<le> (199::real)"
  by (simp add: demographic_cell_def collect_demographic_data_def Let_def cell_def num_col_def
          series_scale_def series_mul_def)

text \<open>
  C1, amended. In every row of the table returned by \<^verbatim>\<open>collect_demographic_data\<close>,
  the estimated asphalt roofs are housing units * homeownership rate * 0.70 for
  Washington (0.72 for Canada), the estimated qualified roofs are the asphalt roofs * 0.90
  (0.85), and the annual market potential is the qualified roofs * 0.07 (0.065). For King
  County (housing units 953923, homeownership rate 0.61) the estimated asphalt roofs are
  953923 * 0.61 * 0.70 = 407325.121.
\<close>

theorem demographic_derived_fields:
  assumes "collect_demographic_data region = Inr df" "i < nrows df"
  shows "(\<exists>h r a q p.
           cell df ''housing_units'' i = Some (Numv (Fin h))
         \<and> cell df ''homeownership_rate'' i = Some (Numv (Fin r))
         \<and> cell df ''est_asphalt_roofs'' i = Some (Numv (Fin a))
         \<and> cell df ''est_qualified_roofs'' i = Some (Numv (Fin q))
         \<and> cell df ''market_potential_annual'' i = Some (Numv (Fin p))
         \<and> (region = ''washington'' \<longrightarrow> a = h * r * 0.70 \<and> q = a * 0.90 \<and> p = q * 0.07)
         \<and> (region = ''canada'' \<longrightarrow> a = h * r * 0.72 \<and> q = a * 0.85 \<and> p = q * 0.065))
     \<and> demographic_cell ''washington'' ''county'' 0 = Inr (Some (Str ''King''))
     \<and> demographic_cell ''washington'' ''housing_units'' 0 = Inr (Some (Numv (Fin 953923)))
     \<and> demographic_cell ''washington'' ''homeownership_rate'' 0 = Inr (Some (Numv (Fin 0.61)))
     \<and> demographic_cell ''washington'' ''est_asphalt_roofs'' 0 =
         Inr (Some (Numv (Fin 407325.121)))"
proof -
  have king: "demographic_cell ''washington'' ''county'' 0 = Inr (Some (Str ''King''))
     \<and> demographic_cell ''washington'' ''housing_units'' 0 = Inr (Some (Numv (Fin 953923)))
     \<and> demographic_cell ''washington'' ''homeownership_rate'' 0 = Inr (Some (Numv (Fin 0.61)))
     \<and> demographic_cell ''washington'' ''est_asphalt_roofs'' 0 =
         Inr (Some (Numv (Fin 407325.121)))"
    by (simp add: demographic_cell_def collect_demographic_data_def Let_def cell_def num_col_def
        series_scale_def series_mul_def)
  from demographic_rows [OF assms] king show ?thesis
    by (rule conjI)
qed

text \<open>C1 at the first row of the Washington table.\<close>

theorem demographic_derived_fields_witness:
  "\<exists>df. collect_demographic_data ''washington'' = Inr df \<and> 0 < nrows df
     \<and> (\<exists>h r a q p.
           cell df ''housing_units'' 0 = Some (Numv (Fin h))
         \<and> cell df ''homeownership_rate'' 0 = Some (Numv (Fin r))
         \<and> cell df ''est_asphalt_roofs'' 0 = Some (Numv (Fin a))
         \<and> cell df ''est_qualified_roofs'' 0 = Some (Numv (Fin q))
         \<and> cell df ''market_potential_annual'' 0 = Some (Numv (Fin p))
         \<and> a = h * r * 0.70 \<and> q = a * 0.90 \<and> p = q * 0.07)"
proof -
  obtain df where df: "collect_demographic_data ''washington'' = Inr df"
    by (simp add: collect_demographic_data_def Let_def)
  have n: "0 < nrows df"
    using df by (auto simp: collect_demographic_data_def Let_def nrows_def col_length_num_col)
  show ?thesis
    using demographic_derived_fields [OF df n] df n by auto
qed

subsection \<open>Feature preparation\<close>

lemma in_columns_iff: "c \<in> columns df \<longleftrightarrow> map_of df c \<noteq> None"
  by (simp add: columns_def map_of_eq_None_iff)

lemma numeric_columnD:
  "numeric_column df c \<Longrightarrow> map_of df c = Some x \<Longrightarrow> \<exists>xs. x = NumCol xs"
  by (cases x) (simp_all add: numeric_column_def)
lemma prepare_features_steps:
  "prepare_features df =
     (case add_quotient ''income_home_ratio'' ''median_income'' ''median_home_value'' df of
        Inl e \<Rightarrow> Inl e
      | Inr features \<Rightarrow>
          add_quotient ''population_density'' ''population'' ''housing_units'' features)"
  by (simp add: prepare_features_def add_quotient_def Let_def split: option.splits sum.splits)

lemma add_quotient_numeric:
  assumes "numeric_column df a" "numeric_column df b"
  obtains out where "add_quotient t a b df = Inr out"
    and "\<And>c. c \<noteq> t \<Longrightarrow> map_of out c = map_of df c"
    and "map_of df a = None \<or> map_of df b = None \<Longrightarrow> out = df"
    and "\<And>xs ys. map_of df a = Some (NumCol xs) \<Longrightarrow> map_of df b = Some (NumCol ys) \<Longrightarrow>
           map_of out t = Some (NumCol (map2 fdiv xs ys))"
proof (cases "map_of df a")
  case None
  show ?thesis
    by (rule that [of df]) (simp_all add: add_quotient_def None)
next
  case (Some x)
  then obtain xs where x: "x = NumCol xs" using assms(1) numeric_columnD by blast
  show ?thesis
  proof (cases "map_of df b")
    case None
    show ?thesis
      by (rule that [of df]) (simp_all add: add_quotient_def None Some)
  next
    case Some2: (Some y)
    then obtain ys where y: "y = NumCol ys" using assms(2) numeric_columnD by blast
    show ?thesis
      by (rule that [of "AList.update t (NumCol (map2 fdiv xs ys)) df"])
         (simp_all add: add_quotient_def AList.update_conv' Some Some2 x y)
  qed
qed

text \<open>
  C7. On a table whose feature source columns, where present, are numeric,
  \<^verbatim>\<open>prepare_features\<close> returns without error. If the median income or the median home
  value column is missing, no income/home ratio is derived: that column of the output is
  what it was in the input, absent if the input had none. If both are present, the output
  has the ratio column, the elementwise quotient median income / median home value, in
  every row (a finite quotient where the home value is not zero). The same holds for
  population, housing units and the population density.
\<close>

theorem prepare_features_missing_column:
  assumes "numeric_sources df"
  shows "\<exists>out. prepare_features df = Inr out
     \<and> (''median_income'' \<notin> columns df \<or> ''median_home_value'' \<notin> columns df \<longrightarrow>
          map_of out ''income_home_ratio'' = map_of df ''income_home_ratio'')
     \<and> (\<forall>income home. map_of df ''median_income'' = Some (NumCol income)
            \<and> map_of df ''median_home_value'' = Some (NumCol home) \<longrightarrow>
          map_of out ''income_home_ratio'' = Some (NumCol (map2 fdiv income home))
          \<and> (\<forall>i x y. i < length income \<and> i < length home \<and> income ! i = Fin x
                \<and> home ! i = Fin y \<and> y \<noteq> 0 \<longrightarrow>
               cell out ''income_home_ratio'' i = Some (Numv (Fin (x / y)))))
     \<and> (''population'' \<notin> columns df \<or> ''housing_units'' \<notin> columns df \<longrightarrow>
          map_of out ''population_density'' = map_of df ''population_density'')
     \<and> (\<forall>pop units. map_of df ''population'' = Some (NumCol pop)
            \<and> map_of df ''housing_units'' = Some (NumCol units) \<longrightarrow>
          map_of out ''population_density'' = Some (NumCol (map2 fdiv pop units))
          \<and> (\<forall>i x y. i < length pop \<and> i < length units \<and> pop ! i = Fin x
                \<and> units ! i = Fin y \<and> y \<noteq> 0 \<longrightarrow>
               cell out ''population_density'' i = Some (Numv (Fin (x / y)))))"
proof -
  have n: "numeric_column df ''median_income''" "numeric_column df ''median_home_value''"
    "numeric_column df ''population''" "numeric_column df ''housing_units''"
    using assms by (simp_all add: numeric_sources_def)
  obtain f1 where f1: "add_quotient ''income_home_ratio'' ''median_income'' ''median_home_value'' df = Inr f1"
    and same1: "\<And>c. c \<noteq> ''income_home_ratio'' \<Longrightarrow> map_of f1 c = map_of df c"
    and skip1: "map_of df ''median_income'' = None \<or> map_of df ''median_home_value'' = None \<Longrightarrow> f1 = df"
    and ratio: "\<And>xs ys. map_of df ''median_income'' = Some (NumCol xs) \<Longrightarrow>
        map_of df ''median_home_value'' = Some (NumCol ys) \<Longrightarrow>
        map_of f1 ''income_home_ratio'' = Some (NumCol (map2 fdiv xs ys))"
    by (rule add_quotient_numeric [OF n(1) n(2), of "''income_home_ratio''"]) (rule that; assumption)
  have n1: "numeric_column f1 ''population''" "numeric_column f1 ''housing_units''"
    using n same1 by (simp_all add: numeric_column_def)
  obtain f2 where f2: "add_quotient ''population_density'' ''population'' ''housing_units'' f1 = Inr f2"
    and same2: "\<And>c. c \<noteq> ''population_density'' \<Longrightarrow> map_of f2 c = map_of f1 c"
    and skip2: "map_of f1 ''population'' = None \<or> map_of f1 ''housing_units'' = None \<Longrightarrow> f2 = f1"
    and density: "\<And>xs ys. map_of f1 ''population'' = Some (NumCol xs) \<Longrightarrow>
        map_of f1 ''housing_units'' = Some (NumCol ys) \<Longrightarrow>
        map_of f2 ''population_density'' = Some (NumCol (map2 fdiv xs ys))"
    by (rule add_quotient_numeric [OF n1(1) n1(2), of "''population_density''"]) (rule that; assumption)
  have out: "prepare_features df = Inr f2"
    by (simp add: prepare_features_steps f1 f2)
  have a: "''median_income'' \<notin> columns df \<or> ''median_home_value'' \<notin> columns df \<longrightarrow>
          map_of f2 ''income_home_ratio'' = map_of df ''income_home_ratio''"
    using skip1 same2 [of "''income_home_ratio''"] by (auto simp: in_columns_iff)
  have row: "cell f t i = Some (Numv (Fin (x / y)))"
    if "map_of f t = Some (NumCol (map2 fdiv xs ys))" "i < length xs" "i < length ys"
       "xs ! i = Fin x" "ys ! i = Fin y" "y \<noteq> 0" for f t i x y xs ys
    using that by (simp add: cell_def)
  have b: "\<forall>income home. map_of df ''median_income'' = Some (NumCol income)
            \<and> map_of df ''median_home_value'' = Some (NumCol home) \<longrightarrow>
          map_of f2 ''income_home_ratio'' = Some (NumCol (map2 fdiv income home))
          \<and> (\<forall>i x y. i < length income \<and> i < length home \<and> income ! i = Fin x
                \<and> home ! i = Fin y \<and> y \<noteq> 0 \<longrightarrow>
               cell f2 ''income_home_ratio'' i = Some (Numv (Fin (x / y))))"
  proof (intro allI impI, elim conjE)
    fix income home
    assume "map_of df ''median_income'' = Some (NumCol income)"
      "map_of df ''median_home_value'' = Some (NumCol home)"
    then have "map_of f2 ''income_home_ratio'' = Some (NumCol (map2 fdiv income home))"
      using ratio [of income home] same2 [of "''income_home_ratio''"] by simp
    then show "map_of f2 ''income_home_ratio'' = Some (NumCol (map2 fdiv income home))
          \<and> (\<forall>i x y. i < length income \<and> i < length home \<and> income ! i = Fin x
                \<and> home ! i = Fin y \<and> y \<noteq> 0 \<longrightarrow>
               cell f2 ''income_home_ratio'' i = Some (Numv (Fin (x / y))))"
      using row [of f2 "''income_home_ratio''" income home] by blast
  qed
  have c: "''population'' \<notin> columns df \<or> ''housing_units'' \<notin> columns df \<longrightarrow>
          map_of f2 ''population_density'' = map_of df ''population_density''"
  proof
    assume "''population'' \<notin> columns df \<or> ''housing_units'' \<notin> columns df"
    then have "map_of f1 ''population'' = None \<or> map_of f1 ''housing_units'' = None"
      using same1 by (auto simp: in_columns_iff)
    then have "f2 = f1" by (rule skip2)
    then show "map_of f2 ''population_density'' = map_of df ''population_density''"
      using same1 [of "''population_density''"] by simp
  qed
  have d: "\<forall>pop units. map_of df ''population'' = Some (NumCol pop)
            \<and> map_of df ''housing_units'' = Some (NumCol units) \<longrightarrow>
          map_of f2 ''population_density'' = Some (NumCol (map2 fdiv pop units))
          \<and> (\<forall>i x y. i < length pop \<and> i < length units \<and> pop ! i = Fin x
                \<and> units ! i = Fin y \<and> y \<noteq> 0 \<longrightarrow>
               cell f2 ''population_density'' i = Some (Numv (Fin (x / y))))"
  proof (intro allI impI, elim conjE)
    fix pop units
    assume "map_of df ''population'' = Some (NumCol pop)"
      "map_of df ''housing_units'' = Some (NumCol units)"
    then have "map_of f2 ''population_density'' = Some (NumCol (map2 fdiv pop units))"
      using density [of pop units] same1 by simp
    then show "map_of f2 ''population_density'' = Some (NumCol (map2 fdiv pop units))
          \<and> (\<forall>i x y. i < length pop \<and> i < length units \<and> pop ! i = Fin x
                \<and> units ! i = Fin y \<and> y \<noteq> 0 \<longrightarrow>
               cell f2 ''population_density'' i = Some (Numv (Fin (x / y))))"
      using row [of f2 "''population_density''" pop units] by blast
  qed
  from out a b c d show ?thesis
    by (intro exI [of _ f2] conjI)
qed

text \<open>
  C7 on a one-row table without the home value and housing unit columns, which comes back
  unchanged, and on a one-row table with all four source columns.
\<close>

theorem prepare_features_missing_column_witness:
  "numeric_sources [(''county'', TextCol [''King'']), (''median_income'', NumCol [Fin 106326]),
                    (''population'', NumCol [Fin 2269675])]
   \<and> ''median_home_value'' \<notin> columns [(''county'', TextCol [''King'']),
                    (''median_income'', NumCol [Fin 106326]),
                    (''population'', NumCol [Fin 2269675])]
   \<and> prepare_features [(''county'', TextCol [''King'']), (''median_income'', NumCol [Fin 106326]),
                    (''population'', NumCol [Fin 2269675])]
       = Inr [(''county'', TextCol [''King'']), (''median_income'', NumCol [Fin 106326]),
                    (''population'', NumCol [Fin 2269675])]
   \<and> numeric_sources [(''median_income'', NumCol [Fin 106326]),
                      (''median_home_value'', NumCol [Fin 686400]),
                      (''population'', NumCol [Fin 2269675]),
                      (''housing_units'', NumCol [Fin 953923])]
   \<and> prepare_features [(''median_income'', NumCol [Fin 106326]),
                       (''median_home_value'', NumCol [Fin 686400]),
                       (''population'', NumCol [Fin 2269675]),
                       (''housing_units'', NumCol [Fin 953923])]
       = Inr [(''median_income'', NumCol [Fin 106326]),
              (''median_home_value'', NumCol [Fin 686400]),
              (''population'', NumCol [Fin 2269675]),
              (''housing_units'', NumCol [Fin 953923]),
              (''income_home_ratio'', NumCol [Fin (106326 / 686400)]),
              (''population_density'', NumCol [Fin (2269675 / 953923)])]"
  using
    prepare_features_missing_column [of "[(''county'', TextCol [''King'']),
        (''median_income'', NumCol [Fin 106326]), (''population'', NumCol [Fin 2269675])]"]
    prepare_features_missing_column [of "[(''median_income'', NumCol [Fin 106326]),
        (''median_home_value'', NumCol [Fin 686400]),
        (''population'', NumCol [Fin 2269675]),
        (''housing_units'', NumCol [Fin 953923])]"]
  by (simp add: numeric_sources_def numeric_column_def columns_def prepare_features_def)

subsection \<open>Market heat map\<close>

lemma wa_coordinate_keys: "map fst wa_coordinates = wa_county_names"
  by (simp add: wa_coordinates_def wa_county_names_def)

lemma wa_lookup_None: "map_of wa_coordinates n = None \<longleftrightarrow> n \<notin> set wa_county_names"
  using wa_coordinate_keys by (metis map_of_eq_None_iff set_map)

lemma format_f_row_get:
  "format_f (row_get r k) = (case map_of r k of Some (Str s) \<Rightarrow> Inl ValueError
      | Some (Numv n) \<Rightarrow> Inr n | None \<Rightarrow> Inr (Fin 0))"
  by (simp add: row_get_def split: option.splits val.splits)

lemma wa_lookup_absent: "n \<notin> set wa_county_names \<Longrightarrow> map_of wa_coordinates n = None"
  by (simp add: wa_lookup_None)

lemma row_marker_skip: "names_in_table r = [] \<Longrightarrow> row_marker metric r = Inr None"
  by (auto simp: names_in_table_def row_marker_def wa_lookup_absent
      split: option.splits val.splits if_splits)

lemma row_marker_hit:
  assumes "names_in_table r = [n]" "numeric_fields metric r"
  shows "\<exists>k. row_marker metric r = Inr (Some k) \<and> popup_name (marker_popup k) = n
           \<and> map_of wa_coordinates n = Some (location k)"
proof -
  from assms(1) have name: "location_name r = Some (Str n)" and "n \<in> set wa_county_names"
    by (auto simp: names_in_table_def split: option.splits val.splits if_splits)
  then obtain coords where coords: "map_of wa_coordinates n = Some coords"
    using wa_lookup_None [of n] by auto
  from assms(2) obtain a b c d where
    "format_f (row_get r metric) = Inr a" "format_f (row_get r ''population'') = Inr b"
    "format_f (row_get r ''median_income'') = Inr c"
    "format_f (row_get r ''est_qualified_roofs'') = Inr d"
    by (auto simp: numeric_fields_def format_f_row_get split: option.splits val.splits)
  then show ?thesis
    using name coords by (simp add: row_marker_def)
qed

lemma row_marker_names:
  "row_marker metric r = Inr mk \<Longrightarrow>
     map (\<lambda>k. popup_name (marker_popup k)) (case mk of None \<Rightarrow> [] | Some k \<Rightarrow> [k])
       = names_in_table r"
  by (auto simp: names_in_table_def row_marker_def wa_lookup_absent
      dest: wa_lookup_None [THEN iffD1]
      split: option.splits val.splits if_splits sum.splits)

lemma add_markers_names:
  "add_markers metric rs ms = Inr out \<Longrightarrow>
     map (\<lambda>k. popup_name (marker_popup k)) out =
       map (\<lambda>k. popup_name (marker_popup k)) ms @ concat (map names_in_table rs)"
proof (induction rs arbitrary: ms)
  case Nil
  then show ?case by simp
next
  case (Cons r rs)
  then obtain mk where mk: "row_marker metric r = Inr mk"
    by (auto split: sum.splits)
  show ?case
  proof (cases mk)
    case None
    then show ?thesis
      using Cons mk row_marker_names [OF mk] by simp
  next
    case (Some k)
    then show ?thesis
      using Cons.prems mk row_marker_names [OF mk] Cons.IH [of "ms @ [k]"] by simp
  qed
qed

lemma row_marker_numeric:
  assumes "numeric_fields metric r"
  shows "\<exists>mk. row_marker metric r = Inr mk"
proof (cases "names_in_table r")
  case Nil
  then show ?thesis by (simp add: row_marker_skip)
next
  case (Cons n ns)
  then have "names_in_table r = [n]"
    by (auto simp: names_in_table_def split: option.splits val.splits if_splits)
  then show ?thesis using row_marker_hit [OF _ assms] by blast
qed

lemma add_markers_numeric:
  "list_all (numeric_fields metric) rs \<Longrightarrow> \<exists>out. add_markers metric rs ms = Inr out"
proof (induction rs arbitrary: ms)
  case Nil
  then show ?case by simp
next
  case (Cons r rs)
  then have "numeric_fields metric r" by simp
  then obtain mk where "row_marker metric r = Inr mk"
    using row_marker_numeric by blast
  then show ?case using Cons by (cases mk) simp_all
qed

lemma add_markers_skip_all:
  "list_all (\<lambda>r. names_in_table r = []) rs \<Longrightarrow> add_markers metric rs ms = Inr ms"
  by (induction rs arbitrary: ms) (simp_all add: row_marker_skip)

lemma row_marker_None_iff: "row_marker metric r = Inr None \<longleftrightarrow> names_in_table r = []"
proof
  assume "row_marker metric r = Inr None"
  then show "names_in_table r = []" using row_marker_names [of metric r None] by simp
qed (rule row_marker_skip)

lemma canada_rows_skipped:
  "collect_demographic_data ''canada'' = Inr df \<Longrightarrow>
     list_all (\<lambda>r. names_in_table r = []) (iterrows df)"
  by (auto simp: collect_demographic_data_def Let_def iterrows_def nrows_def
      row_at_def names_in_table_def location_name_def wa_county_names_def)

text \<open>
  C8. A row is passed over without a marker and without an error exactly when its name
  (its county, else its province) is not one of the ten Washington county names of the
  coordinate table. A row whose name is in the table, with numeric display fields, gets a
  marker at the coordinates of that name. When the rendering returns, the names on its
  markers are, in order, the names of the rows that are in the table; it returns whenever
  the display fields of all rows are numeric. For the Canadian table every row is passed
  over: the map is returned with no marker, whatever the metric.
\<close>

theorem heatmap_markers:
  "(row_marker metric r = Inr None \<longleftrightarrow> names_in_table r = [])
   \<and> (names_in_table r = [n] \<and> numeric_fields metric r \<longrightarrow>
        (\<exists>k. row_marker metric r = Inr (Some k) \<and> popup_name (marker_popup k) = n
           \<and> map_of wa_coordinates n = Some (location k)))
   \<and> (create_market_heatmap self df metric = Inr (m, self') \<longrightarrow>
        map (\<lambda>k. popup_name (marker_popup k)) (children m) =
          concat (map names_in_table (iterrows df)))
   \<and> (list_all (numeric_fields metric) (iterrows df) \<longrightarrow>
        (\<exists>m self'. create_market_heatmap self df metric = Inr (m, self')))
   \<and> (collect_demographic_data ''canada'' = Inr canada \<longrightarrow>
        (\<exists>m self'. create_market_heatmap self canada metric = Inr (m, self')
           \<and> children m = []))"
proof (intro conjI impI)
  show "row_marker metric r = Inr None \<longleftrightarrow> names_in_table r = []"
    by (rule row_marker_None_iff)
  show "\<exists>k. row_marker metric r = Inr (Some k) \<and> popup_name (marker_popup k) = n
           \<and> map_of wa_coordinates n = Some (location k)"
    if "names_in_table r = [n] \<and> numeric_fields metric r"
    using that row_marker_hit by blast
  show "map (\<lambda>k. popup_name (marker_popup k)) (children m) =
          concat (map names_in_table (iterrows df))"
    if "create_market_heatmap self df metric = Inr (m, self')"
  proof -
    from that obtain ms where ms: "add_markers metric (iterrows df) [] = Inr ms"
      and "children m = ms"
      by (auto simp: create_market_heatmap_def Let_def split: sum.splits)
    then show ?thesis using add_markers_names [OF ms] by simp
  qed
  show "\<exists>m self'. create_market_heatmap self df metric = Inr (m, self')"
    if "list_all (numeric_fields metric) (iterrows df)"
  proof -
    from that obtain ms where "add_markers metric (iterrows df) [] = Inr ms"
      using add_markers_numeric by blast
    then show ?thesis by (simp add: create_market_heatmap_def Let_def)
  qed
  show "\<exists>m self'. create_market_heatmap self canada metric = Inr (m, self')
           \<and> children m = []"
    if "collect_demographic_data ''canada'' = Inr canada"
  proof -
    have "add_markers metric (iterrows canada) [] = Inr []"
      using that by (intro add_markers_skip_all canada_rows_skipped)
    then show ?thesis by (simp add: create_market_heatmap_def Let_def)
  qed
qed

text \<open>
  C8 at a row for Ontario, a row for King County, a two-row table with one county of the
  coordinate table and one outside it, and the Canadian table.
\<close>

theorem heatmap_markers_witness:
  "names_in_table [(''province'', Str ''Ontario''), (''population'', Numv (Fin 14826276))] = []
   \<and> row_marker ''market_potential_annual''
        [(''province'', Str ''Ontario''), (''population'', Numv (Fin 14826276))] = Inr None
   \<and> names_in_table [(''county'', Str ''King''), (''population'', Numv (Fin 2269675))] = [''King'']
   \<and> numeric_fields ''market_potential_annual''
        [(''county'', Str ''King''), (''population'', Numv (Fin 2269675))]
   \<and> (\<exists>k. row_marker ''market_potential_annual''
              [(''county'', Str ''King''), (''population'', Numv (Fin 2269675))] = Inr (Some k)
          \<and> location k = (47.5480, -121.9836) \<and> radius k = Fin 0)
   \<and> (\<exists>m a. create_market_heatmap \<lparr> analyzer_maps = [] \<rparr>
                [(''county'', TextCol [''King'', ''Multnomah'']),
                 (''market_potential_annual'', NumCol [Fin 100, Fin 200])]
                ''market_potential_annual'' = Inr (m, a)
          \<and> map (\<lambda>k. popup_name (marker_popup k)) (children m) = [''King''])
   \<and> (\<exists>canada m a. collect_demographic_data ''canada'' = Inr canada
          \<and> create_market_heatmap \<lparr> analyzer_maps = [] \<rparr> canada
               ''market_potential_annual'' = Inr (m, a)
          \<and> children m = [])"
proof -
  obtain canada where canada: "collect_demographic_data ''canada'' = Inr canada"
    by (simp add: collect_demographic_data_def Let_def)
  have "\<exists>m a. create_market_heatmap \<lparr> analyzer_maps = [] \<rparr> canada
               ''market_potential_annual'' = Inr (m, a) \<and> children m = []"
    using canada heatmap_markers [where canada = canada and self = "\<lparr> analyzer_maps = [] \<rparr>"
      and metric = "''market_potential_annual''"]
    by simp
  then have last: "\<exists>canada m a. collect_demographic_data ''canada'' = Inr canada
          \<and> create_market_heatmap \<lparr> analyzer_maps = [] \<rparr> canada
               ''market_potential_annual'' = Inr (m, a)
          \<and> children m = []"
    using canada by blast
  have first: "names_in_table [(''province'', Str ''Ontario''), (''population'', Numv (Fin 14826276))] = []
   \<and> row_marker ''market_potential_annual''
        [(''province'', Str ''Ontario''), (''population'', Numv (Fin 14826276))] = Inr None
   \<and> names_in_table [(''county'', Str ''King''), (''population'', Numv (Fin 2269675))] = [''King'']
   \<and> numeric_fields ''market_potential_annual''
        [(''county'', Str ''King''), (''population'', Numv (Fin 2269675))]
   \<and> (\<exists>k. row_marker ''market_potential_annual''
              [(''county'', Str ''King''), (''population'', Numv (Fin 2269675))] = Inr (Some k)
          \<and> location k = (47.5480, -121.9836) \<and> radius k = Fin 0)
   \<and> (\<exists>m a. create_market_heatmap \<lparr> analyzer_maps = [] \<rparr>
                [(''county'', TextCol [''King'', ''Multnomah'']),
                 (''market_potential_annual'', NumCol [Fin 100, Fin 200])]
                ''market_potential_annual'' = Inr (m, a)
          \<and> map (\<lambda>k. popup_name (marker_popup k)) (children m) = [''King''])"
    using
      heatmap_markers [where r = "[(''province'', Str ''Ontario''), (''population'', Numv (Fin 14826276))]"
        and metric = "''market_potential_annual''"]
      heatmap_markers [where r = "[(''county'', Str ''King''), (''population'', Numv (Fin 2269675))]"
        and metric = "''market_potential_annual''" and n = "''King''"
        and self = "\<lparr> analyzer_maps = [] \<rparr>"
        and df = "[(''county'', TextCol [''King'', ''Multnomah'']),
          (''market_potential_annual'', NumCol [Fin 100, Fin 200])]"]
    by (simp add: names_in_table_def location_name_def wa_county_names_def numeric_fields_def
        row_marker_def wa_coordinates_def row_get_def create_market_heatmap_def iterrows_def
        nrows_def row_at_def upt_rec_numeral Let_def)
  from first last show ?thesis by (elim conjE) (intro conjI; assumption)
qed

end
